theory Spec2Isabelle
  imports Complex_Main
begin

section \<open>The trial vector store and its callers\<close>

text \<open>
  The development follows \<^verbatim>\<open>vector_store.py\<close> (class \<^verbatim>\<open>TrialVectorStore\<close>) and the
  three places of \<^verbatim>\<open>Project.py\<close> that drive it (\<^verbatim>\<open>create_trial\<close>,
  \<^verbatim>\<open>semantic_search\<close> and the module-level \<^verbatim>\<open>vector_store\<close>).

  Numbers: the source computes in float32; the model computes in \<open>real\<close>, so rounding
  is abstracted away. A position in the index's answer is a signed integer, as in the
  source. Every exception of the source is a value of \<open>error\<close>. A method
  that mutates \<^verbatim>\<open>self\<close> returns the store it leaves behind beside its outcome, also
  when it raises, since the object keeps what was assigned before the exception.
\<close>

subsection \<open>Errors\<close>

datatype error =
    ValueError          \<comment> \<open>\<^verbatim>\<open>search\<close>: "No index available"\<close>
  | DimensionMismatch   \<comment> \<open>the index refuses a vector of the wrong length\<close>
  | IndexError          \<comment> \<open>a list read out of range\<close>
  | StopIteration       \<comment> \<open>\<^verbatim>\<open>next\<close> on an exhausted generator\<close>
  | TypeError           \<comment> \<open>\<^verbatim>\<open>faiss.write_index\<close> given \<^verbatim>\<open>None\<close>\<close>
  | AttributeError      \<comment> \<open>a method called on the global while it is \<^verbatim>\<open>None\<close>\<close>
  | RuntimeError        \<comment> \<open>\<^verbatim>\<open>faiss.read_index\<close>: no such file\<close>
  | FileNotFoundError   \<comment> \<open>\<^verbatim>\<open>open(..., "r")\<close>: no such file\<close>
  | OSError             \<comment> \<open>a directory or file could not be written\<close>
  | HTTPException       \<comment> \<open>status 500 raised by an endpoint\<close>

subsection \<open>The embedding model\<close>

type_synonym embedding = "real list"

text \<open>
  \<^verbatim>\<open>SentenceTransformer\<close> is opaque: a deterministic function from a text to a vector,
  and the dimension it reports. \<^verbatim>\<open>model.encode(texts)\<close> embeds each text of a batch.
\<close>

record embedder =
  encode_text :: "string \<Rightarrow> embedding"
  get_sentence_embedding_dimension :: nat

definition encode :: "embedder \<Rightarrow> string list \<Rightarrow> embedding list" where
  "encode m texts = map (encode_text m) texts"

subsection \<open>The flat index\<close>

text \<open>
  Modelled from the spec: \<^verbatim>\<open>faiss.IndexFlatL2\<close> is a library class, not part of the
  sources. The Similarity Index of section 4.2 of the specification is followed word for
  word: \<open>create(D)\<close> gives an empty index bound to \<open>D\<close>; \<open>insert\<close> appends the vectors in
  order and fails with \<open>DimensionMismatch\<close> if any vector's length differs from \<open>D\<close>;
  \<open>search\<close> fails with \<open>DimensionMismatch\<close> if the query's length differs from \<open>D\<close> and
  otherwise returns the \<open>min(k, size)\<close> nearest neighbours as (position, distance), by
  ascending distance, the earlier position first among equal distances; the distance is
  the sum of the squared componentwise differences.

  The specification speaks of the neighbours only. The library's answer is an array of
  exactly \<open>k\<close> entries whose positions are signed integers: after the neighbours, every
  remaining place holds the position \<open>-1\<close> and the largest float32 as its distance. The
  model keeps these places, since \<^verbatim>\<open>search\<close> of the store reads every entry of the
  answer.
\<close>

record flat_index =
  ix_dim :: nat
  ix_vectors :: "embedding list"

definition IndexFlatL2 :: "nat \<Rightarrow> flat_index" where
  "IndexFlatL2 D = \<lparr>ix_dim = D, ix_vectors = []\<rparr>"

definition ntotal :: "flat_index \<Rightarrow> nat" where
  "ntotal ix = length (ix_vectors ix)"

definition index_add :: "flat_index \<Rightarrow> embedding list \<Rightarrow> error + flat_index" where
  "index_add ix vs =
     (if list_all (\<lambda>v. length v = ix_dim ix) vs
      then Inr (ix\<lparr>ix_vectors := ix_vectors ix @ vs\<rparr>)
      else Inl DimensionMismatch)"

definition l2_sqr :: "embedding \<Rightarrow> embedding \<Rightarrow> real" where
  "l2_sqr x y = sum_list (map (\<lambda>(a, b). (a - b) * (a - b)) (zip x y))"

definition closer :: "nat \<times> real \<Rightarrow> nat \<times> real \<Rightarrow> bool" where
  "closer a b = (snd a < snd b \<or> (snd a = snd b \<and> fst a < fst b))"

fun insert_neighbor :: "nat \<times> real \<Rightarrow> (nat \<times> real) list \<Rightarrow> (nat \<times> real) list" where
  "insert_neighbor a [] = [a]"
| "insert_neighbor a (b # bs) =
     (if closer a b then a # b # bs else b # insert_neighbor a bs)"

fun rank_neighbors :: "(nat \<times> real) list \<Rightarrow> (nat \<times> real) list" where
  "rank_neighbors [] = []"
| "rank_neighbors (a # as) = insert_neighbor a (rank_neighbors as)"

definition FLT_MAX :: real where
  "FLT_MAX = 340282346638528859811704183484516925440"

definition index_search :: "flat_index \<Rightarrow> embedding \<Rightarrow> int \<Rightarrow> error + (int \<times> real) list" where
  "index_search ix q k =
     (if length q = ix_dim ix
      then Inr (map (\<lambda>(p, dis). (int p, dis))
                  (take (nat k) (rank_neighbors (enumerate 0 (map (l2_sqr q) (ix_vectors ix)))))
                @ replicate (nat k - ntotal ix) (- 1, FLT_MAX))
      else Inl DimensionMismatch)"

subsection \<open>Trials and the store\<close>

text \<open>
  A trial is the dictionary made from \<^verbatim>\<open>ClinicalTrial\<close>; only the four keys the store
  reads are kept (\<^verbatim>\<open>id\<close> is written \<open>tr_id\<close>).
\<close>

record trial =
  tr_id :: string
  title :: string
  description :: string
  primary_outcome :: string

record search_result =
  trial_id :: string
  similarity_score :: real

record trial_vector_store =
  model :: embedder
  index :: "flat_index option"
  trial_ids :: "string list"
  dimension :: nat

text \<open>\<^verbatim>\<open>__init__\<close>: no index yet, an empty ledger, the model's dimension.\<close>

definition TrialVectorStore :: "embedder \<Rightarrow> trial_vector_store" where
  "TrialVectorStore m =
     \<lparr>model = m, index = None, trial_ids = [],
      dimension = get_sentence_embedding_dimension m\<rparr>"

definition create_index :: "trial_vector_store \<Rightarrow> trial_vector_store" where
  "create_index st = st\<lparr>index := Some (IndexFlatL2 (dimension st))\<rparr>"

text \<open>The f-string of \<^verbatim>\<open>add_trials\<close>: title, description and primary outcome, joined by blanks.\<close>

definition subject_text :: "trial \<Rightarrow> string" where
  "subject_text t = title t @ '' '' @ description t @ '' '' @ primary_outcome t"

text \<open>
  \<^verbatim>\<open>add_trials\<close>: the texts are embedded, an index is created if there is none, the
  vectors are added to the index and only then the ledger is extended. When the index
  refuses the batch the exception leaves the method before \<^verbatim>\<open>trial_ids.extend\<close>.
\<close>

definition add_trials :: "trial_vector_store \<Rightarrow> trial list \<Rightarrow> (error + unit) \<times> trial_vector_store" where
  "add_trials st trials =
     (let texts = map subject_text trials;
          ids = map tr_id trials;
          embeddings = encode (model st) texts;
          st1 = (case index st of None \<Rightarrow> create_index st | Some _ \<Rightarrow> st)
      in case index st1 of
           None \<Rightarrow> (Inl AttributeError, st1)
         | Some ix \<Rightarrow>
             (case index_add ix embeddings of
                Inl e \<Rightarrow> (Inl e, st1)
              | Inr ix' \<Rightarrow>
                  (Inr (), st1\<lparr>index := Some ix', trial_ids := trial_ids st1 @ ids\<rparr>)))"

text \<open>
  \<^verbatim>\<open>self.trial_ids[idx]\<close>: Python reads a negative index from the end of the list and
  raises \<^verbatim>\<open>IndexError\<close> outside \<open>-len \<le> idx < len\<close>.
\<close>

definition ledger_get :: "string list \<Rightarrow> int \<Rightarrow> error + string" where
  "ledger_get ids idx =
     (let n = int (length ids);
          j = (if idx < 0 then idx + n else idx)
      in if 0 \<le> j \<and> j < n then Inr (ids ! nat j) else Inl IndexError)"

text \<open>
  The loop of \<^verbatim>\<open>search\<close> over the entries of the index's answer. The only test is
  \<^verbatim>\<open>idx < len(self.trial_ids)\<close>: a position at or beyond the ledger's length is passed
  over, every position below it gives a result, a negative one included.
\<close>

fun collect_results :: "string list \<Rightarrow> (int \<times> real) list \<Rightarrow> error + search_result list" where
  "collect_results ids [] = Inr []"
| "collect_results ids ((idx, dis) # rest) =
     (if idx < int (length ids)
      then (case ledger_get ids idx of
              Inl e \<Rightarrow> Inl e
            | Inr tid \<Rightarrow>
                (case collect_results ids rest of
                   Inl e \<Rightarrow> Inl e
                 | Inr rs \<Rightarrow> Inr (\<lparr>trial_id = tid, similarity_score = 1 - dis / 10\<rparr> # rs)))
      else collect_results ids rest)"

definition search :: "trial_vector_store \<Rightarrow> string \<Rightarrow> int \<Rightarrow> error + search_result list" where
  "search st query top_k =
     (case index st of
        None \<Rightarrow> Inl ValueError
      | Some ix \<Rightarrow>
          if length (trial_ids st) = 0 then Inr []
          else (case index_search ix (encode_text (model st) query)
                       (min top_k (int (length (trial_ids st)))) of
                  Inl e \<Rightarrow> Inl e
                | Inr neighbors \<Rightarrow> collect_results (trial_ids st) neighbors))"

subsection \<open>Persistence\<close>

text \<open>
  A location is a directory with the two files \<^verbatim>\<open>index.faiss\<close> and
  \<^verbatim>\<open>trial_ids.json\<close>. A file holds the value that was written to it: the encodings of
  \<^verbatim>\<open>faiss.write_index\<close> and \<^verbatim>\<open>json.dump\<close> are library code and are taken to read back
  what they wrote.

  Writing can fail for reasons outside the program (permissions, a full disk). The
  argument \<open>io_fault\<close> says which call of \<^verbatim>\<open>save\<close>, if any, raises; a call that raises
  is taken in its mildest form, leaving its file as it was.
\<close>

record directory =
  index_faiss :: "flat_index option"
  trial_ids_json :: "string list option"

type_synonym filesystem = "string \<Rightarrow> directory option"

datatype io_fault = NoFault | MakedirsFails | WriteIndexFails | WriteIdsFails

definition makedirs :: "string \<Rightarrow> filesystem \<Rightarrow> filesystem" where
  "makedirs path fs =
     (case fs path of
        None \<Rightarrow> fs(path := Some \<lparr>index_faiss = None, trial_ids_json = None\<rparr>)
      | Some _ \<Rightarrow> fs)"

definition the_directory :: "filesystem \<Rightarrow> string \<Rightarrow> directory" where
  "the_directory fs path =
     (case fs path of None \<Rightarrow> \<lparr>index_faiss = None, trial_ids_json = None\<rparr> | Some dir \<Rightarrow> dir)"

definition write_index :: "flat_index \<Rightarrow> string \<Rightarrow> filesystem \<Rightarrow> filesystem" where
  "write_index ix path fs = fs(path := Some ((the_directory fs path)\<lparr>index_faiss := Some ix\<rparr>))"

definition write_trial_ids :: "string list \<Rightarrow> string \<Rightarrow> filesystem \<Rightarrow> filesystem" where
  "write_trial_ids ids path fs =
     fs(path := Some ((the_directory fs path)\<lparr>trial_ids_json := Some ids\<rparr>))"

text \<open>
  \<^verbatim>\<open>save\<close>: the directory is made, the index is written to its file, then the ledger
  to its file. Both files are written in place, one after the other.
\<close>

definition save :: "io_fault \<Rightarrow> trial_vector_store \<Rightarrow> string \<Rightarrow> filesystem \<Rightarrow> (error + unit) \<times> filesystem" where
  "save fault st path fs =
     (if fault = MakedirsFails then (Inl OSError, fs)
      else let fs1 = makedirs path fs in
        case index st of
          None \<Rightarrow> (Inl TypeError, fs1)
        | Some ix \<Rightarrow>
            if fault = WriteIndexFails then (Inl OSError, fs1)
            else let fs2 = write_index ix path fs1 in
              if fault = WriteIdsFails then (Inl OSError, fs2)
              else (Inr (), write_trial_ids (trial_ids st) path fs2))"

text \<open>
  \<^verbatim>\<open>load\<close>: the index is read and assigned, then the ledger is read and assigned.
  Nothing compares the two.
\<close>

definition load :: "trial_vector_store \<Rightarrow> string \<Rightarrow> filesystem \<Rightarrow> (error + unit) \<times> trial_vector_store" where
  "load st path fs =
     (case index_faiss (the_directory fs path) of
        None \<Rightarrow> (Inl RuntimeError, st)
      | Some ix \<Rightarrow>
          let st1 = st\<lparr>index := Some ix\<rparr> in
          (case trial_ids_json (the_directory fs path) of
             None \<Rightarrow> (Inl FileNotFoundError, st1)
           | Some ids \<Rightarrow> (Inr (), st1\<lparr>trial_ids := ids\<rparr>)))"

subsection \<open>The endpoints that use the store\<close>

text \<open>
  \<^verbatim>\<open>Project.py\<close> keeps the store in a module-level variable that is \<^verbatim>\<open>None\<close> until the
  start-up hook has run. \<open>trials_db\<close> is the collection \<^verbatim>\<open>db.trials\<close> in insertion order
  and \<open>disk\<close> the file system.
\<close>

record app =
  trials_db :: "trial list"
  vector_store :: "trial_vector_store option"
  disk :: filesystem

text \<open>\<^verbatim>\<open>db.trials.find_one({"id": trial_id})\<close>: the first document with that id, if any.\<close>

definition find_one :: "trial list \<Rightarrow> string \<Rightarrow> trial option" where
  "find_one db tid = List.find (\<lambda>t. tr_id t = tid) db"

text \<open>
  \<^verbatim>\<open>create_trial\<close>: the document is inserted, then added to the store, then the store
  is saved at its default location. \<open>acknowledged\<close> is the flag of the insertion's result.
\<close>

definition create_trial :: "bool \<Rightarrow> io_fault \<Rightarrow> app \<Rightarrow> trial \<Rightarrow> (error + trial) \<times> app" where
  "create_trial acknowledged fault a t =
     (if acknowledged
      then let a1 = a\<lparr>trials_db := trials_db a @ [t]\<rparr> in
        (case vector_store a1 of
           None \<Rightarrow> (Inl AttributeError, a1)
         | Some vs \<Rightarrow>
             (case add_trials vs [t] of
                (Inl e, vs1) \<Rightarrow> (Inl e, a1\<lparr>vector_store := Some vs1\<rparr>)
              | (Inr _, vs1) \<Rightarrow>
                  (case save fault vs1 ''vector_store'' (disk a1) of
                     (Inl e, fs1) \<Rightarrow> (Inl e, a1\<lparr>vector_store := Some vs1, disk := fs1\<rparr>)
                   | (Inr _, fs1) \<Rightarrow> (Inr t, a1\<lparr>vector_store := Some vs1, disk := fs1\<rparr>))))
      else (Inl HTTPException, a))"

text \<open>
  \<^verbatim>\<open>next(r["similarity_score"] for r in results if r["trial_id"] == trial_id)\<close>: the
  score of the first result with that id.
\<close>

definition first_score :: "search_result list \<Rightarrow> string \<Rightarrow> error + real" where
  "first_score results tid =
     (case List.find (\<lambda>r. trial_id r = tid) results of
        None \<Rightarrow> Inl StopIteration
      | Some r \<Rightarrow> Inr (similarity_score r))"

text \<open>
  The loop of \<^verbatim>\<open>semantic_search\<close> over the returned ids: an id that \<^verbatim>\<open>find_one\<close> does
  not resolve is passed over, a resolved document is returned with its score.
\<close>

fun attach_trials :: "trial list \<Rightarrow> search_result list \<Rightarrow> string list \<Rightarrow> error + (trial \<times> real) list" where
  "attach_trials db results [] = Inr []"
| "attach_trials db results (tid # tids) =
     (case find_one db tid of
        None \<Rightarrow> attach_trials db results tids
      | Some t \<Rightarrow>
          (case first_score results tid of
             Inl e \<Rightarrow> Inl e
           | Inr s \<Rightarrow>
               (case attach_trials db results tids of
                  Inl e \<Rightarrow> Inl e
                | Inr out \<Rightarrow> Inr ((t, s) # out))))"

text \<open>
  The first \<^verbatim>\<open>try\<close> block of \<^verbatim>\<open>semantic_search\<close>: a new store with an index, all
  documents added, the store saved. The global is assigned before anything can fail.
\<close>

definition initialize_store :: "io_fault \<Rightarrow> embedder \<Rightarrow> app \<Rightarrow> (error + unit) \<times> app" where
  "initialize_store fault m a =
     (let vs0 = create_index (TrialVectorStore m) in
      case add_trials vs0 (trials_db a) of
        (Inl e, vs1) \<Rightarrow> (Inl e, a\<lparr>vector_store := Some vs1\<rparr>)
      | (Inr _, vs1) \<Rightarrow>
          (case save fault vs1 ''vector_store'' (disk a) of
             (r, fs1) \<Rightarrow> (r, a\<lparr>vector_store := Some vs1, disk := fs1\<rparr>)))"

definition needs_initialization :: "app \<Rightarrow> bool" where
  "needs_initialization a =
     (case vector_store a of None \<Rightarrow> True | Some vs \<Rightarrow> index vs = None)"

text \<open>
  \<^verbatim>\<open>semantic_search\<close>: every exception of either \<^verbatim>\<open>try\<close> block becomes the
  \<^verbatim>\<open>HTTPException\<close> of status 500.
\<close>

definition semantic_search :: "io_fault \<Rightarrow> embedder \<Rightarrow> app \<Rightarrow> string \<Rightarrow> int \<Rightarrow> (error + (trial \<times> real) list) \<times> app" where
  "semantic_search fault m a query top_k =
     (case (if needs_initialization a then initialize_store fault m a else (Inr (), a)) of
        (Inl e, a1) \<Rightarrow> (Inl HTTPException, a1)
      | (Inr _, a1) \<Rightarrow>
          (case vector_store a1 of
             None \<Rightarrow> (Inl HTTPException, a1)
           | Some vs \<Rightarrow>
               (case search vs query top_k of
                  Inl e \<Rightarrow> (Inl HTTPException, a1)
                | Inr results \<Rightarrow>
                    (case attach_trials (trials_db a1) results (map trial_id results) of
                       Inl e \<Rightarrow> (Inl HTTPException, a1)
                     | Inr trials \<Rightarrow> (Inr trials, a1)))))"

subsection \<open>Notions used in the statements\<close>

text \<open>
  The number of vectors the store's index holds (none while there is no index), the
  parity of index and ledger, the dimension the store is bound to (the index's, or the
  one a new index would get), and the distance from a query to the vector at a position.
\<close>

definition index_size :: "trial_vector_store \<Rightarrow> nat" where
  "index_size st = (case index st of None \<Rightarrow> 0 | Some ix \<Rightarrow> ntotal ix)"

definition parity :: "trial_vector_store \<Rightarrow> bool" where
  "parity st = (index_size st = length (trial_ids st))"

definition bound_dimension :: "trial_vector_store \<Rightarrow> nat" where
  "bound_dimension st = (case index st of None \<Rightarrow> dimension st | Some ix \<Rightarrow> ix_dim ix)"

definition distance_to :: "flat_index \<Rightarrow> embedding \<Rightarrow> nat \<Rightarrow> real" where
  "distance_to ix q p = l2_sqr q (ix_vectors ix ! p)"

text \<open>All positions of an index with their distances to a query, nearest first.\<close>

definition ranked :: "flat_index \<Rightarrow> embedding \<Rightarrow> (nat \<times> real) list" where
  "ranked ix q = rank_neighbors (enumerate 0 (map (l2_sqr q) (ix_vectors ix)))"

subsection \<open>Concrete inputs\<close>

text \<open>
  A one-dimensional embedder for the examples: a text is embedded as its length.
\<close>

definition length_embedder :: embedder where
  "length_embedder =
     \<lparr>encode_text = (\<lambda>s. [real (length s)]), get_sentence_embedding_dimension = 1\<rparr>"

definition trial_A :: trial where
  "trial_A = \<lparr>tr_id = ''A'', title = ''a'', description = ''b'', primary_outcome = ''c''\<rparr>"

definition trial_B :: trial where
  "trial_B = \<lparr>tr_id = ''B'', title = ''bbb'', description = ''b'', primary_outcome = ''c''\<rparr>"

definition trial_C :: trial where
  "trial_C = \<lparr>tr_id = ''C'', title = ''c'', description = ''b'', primary_outcome = ''c''\<rparr>"

definition no_files :: filesystem where
  "no_files = (\<lambda>path. None)"

text \<open>The artifact of the corruption scenario: two vectors beside a ledger of one id.\<close>

definition corrupt_disk :: filesystem where
  "corrupt_disk = no_files(''vector_store'' := Some
     \<lparr>index_faiss = Some \<lparr>ix_dim = 1, ix_vectors = [[5], [7]]\<rparr>,
      trial_ids_json = Some [''A'']\<rparr>)"

text \<open>A store whose index was made for two-dimensional vectors.\<close>

definition foreign_store :: trial_vector_store where
  "foreign_store =
     \<lparr>model = length_embedder,
      index = Some \<lparr>ix_dim = 2, ix_vectors = [[1, 2]]\<rparr>,
      trial_ids = [''Z''], dimension = 1\<rparr>"

text \<open>
  The artifact after one trial was saved, and the store after a second trial was added.
\<close>

definition disk_one :: filesystem where
  "disk_one = no_files(''vector_store'' := Some
     \<lparr>index_faiss = Some \<lparr>ix_dim = 1, ix_vectors = [[5]]\<rparr>,
      trial_ids_json = Some [''A'']\<rparr>)"

definition store_two :: trial_vector_store where
  "store_two =
     \<lparr>model = length_embedder,
      index = Some \<lparr>ix_dim = 1, ix_vectors = [[5], [7]]\<rparr>,
      trial_ids = [''A'', ''B''], dimension = 1\<rparr>"

text \<open>
  The application with an empty collection and an empty index; after trial A was created
  and saved; and after trial B was created while the write of the ledger file failed.
\<close>

definition app_empty :: app where
  "app_empty =
     \<lparr>trials_db = [],
      vector_store = Some (create_index (TrialVectorStore length_embedder)),
      disk = no_files\<rparr>"

definition app_one :: app where
  "app_one = snd (create_trial True NoFault app_empty trial_A)"

definition app_two :: app where
  "app_two = snd (create_trial True WriteIdsFails app_one trial_B)"

text \<open>
  A store of three trials, two of them at the same distance from a text of five
  characters, and the application after trial C was deleted from the collection.
\<close>

definition store_three :: trial_vector_store where
  "store_three =
     \<lparr>model = length_embedder,
      index = Some \<lparr>ix_dim = 1, ix_vectors = [[5], [7], [5]]\<rparr>,
      trial_ids = [''A'', ''B'', ''C''], dimension = 1\<rparr>"

definition app_deleted :: app where
  "app_deleted =
     \<lparr>trials_db = [trial_A, trial_B], vector_store = Some store_three, disk = no_files\<rparr>"

text \<open>A store of one trial, and a store with an empty index.\<close>

definition single_store :: trial_vector_store where
  "single_store =
     \<lparr>model = length_embedder,
      index = Some \<lparr>ix_dim = 1, ix_vectors = [[5]]\<rparr>,
      trial_ids = [''A''], dimension = 1\<rparr>"

definition fresh_store :: trial_vector_store where
  "fresh_store = create_index (TrialVectorStore length_embedder)"

text \<open>
  The store that \<^verbatim>\<open>load\<close> returns for the artifact of the corruption scenario: two
  vectors beside one id.
\<close>

definition short_ledger_store :: trial_vector_store where
  "short_ledger_store =
     \<lparr>model = length_embedder,
      index = Some \<lparr>ix_dim = 1, ix_vectors = [[5], [7]]\<rparr>,
      trial_ids = [''A''], dimension = 1\<rparr>"

text \<open>
  An artifact of one vector beside a ledger of two ids, and the store that \<^verbatim>\<open>load\<close>
  returns for it.
\<close>

definition long_ledger_disk :: filesystem where
  "long_ledger_disk = no_files(''vector_store'' := Some
     \<lparr>index_faiss = Some \<lparr>ix_dim = 1, ix_vectors = [[5]]\<rparr>,
      trial_ids_json = Some [''A'', ''B'']\<rparr>)"

definition long_ledger_store :: trial_vector_store where
  "long_ledger_store =
     \<lparr>model = length_embedder,
      index = Some \<lparr>ix_dim = 1, ix_vectors = [[5]]\<rparr>,
      trial_ids = [''A'', ''B''], dimension = 1\<rparr>"



section \<open>Properties\<close>

subsection \<open>Where the concrete inputs come from\<close>

text \<open>
  The stores of the examples are what \<^verbatim>\<open>add_trials\<close> builds from a new store, and the
  two artifacts are what \<^verbatim>\<open>create_trial\<close> leaves on disk: the second one after the
  write of the ledger file failed.
\<close>

lemma single_store_built: "add_trials fresh_store [trial_A] = (Inr (), single_store)"
  by (simp add: fresh_store_def single_store_def add_trials_def Let_def create_index_def
      TrialVectorStore_def IndexFlatL2_def index_add_def encode_def length_embedder_def
      subject_text_def trial_A_def)

lemma store_two_built: "add_trials single_store [trial_B] = (Inr (), store_two)"
  by (simp add: single_store_def store_two_def add_trials_def Let_def index_add_def encode_def
      length_embedder_def subject_text_def trial_B_def)

lemma store_three_built: "add_trials store_two [trial_C] = (Inr (), store_three)"
  by (simp add: store_two_def store_three_def add_trials_def Let_def index_add_def encode_def
      length_embedder_def subject_text_def trial_C_def)

lemma app_one_built:
  "app_one = \<lparr>trials_db = [trial_A], vector_store = Some single_store, disk = disk_one\<rparr>"
  by (simp add: app_one_def app_empty_def create_trial_def Let_def
      single_store_built [unfolded fresh_store_def] save_def makedirs_def write_index_def
      write_trial_ids_def the_directory_def single_store_def disk_one_def no_files_def)

lemma app_two_built:
  "app_two = \<lparr>trials_db = [trial_A, trial_B], vector_store = Some store_two, disk = corrupt_disk\<rparr>"
  by (simp add: app_two_def app_one_built create_trial_def Let_def store_two_built
      save_def makedirs_def write_index_def the_directory_def store_two_def disk_one_def
      corrupt_disk_def no_files_def)

lemma short_ledger_store_built:
  "load (TrialVectorStore length_embedder) ''vector_store'' corrupt_disk = (Inr (), short_ledger_store)"
  by (simp add: load_def the_directory_def corrupt_disk_def TrialVectorStore_def
      short_ledger_store_def length_embedder_def)

lemma long_ledger_store_built:
  "load (TrialVectorStore length_embedder) ''vector_store'' long_ledger_disk = (Inr (), long_ledger_store)"
  by (simp add: load_def the_directory_def long_ledger_disk_def TrialVectorStore_def
      long_ledger_store_def length_embedder_def)

subsection \<open>The ranking of the flat index\<close>

lemma set_insert_neighbor: "set (insert_neighbor a xs) = insert a (set xs)"
  by (induction xs) auto

lemma set_rank_neighbors: "set (rank_neighbors xs) = set xs"
  by (induction xs) (auto simp: set_insert_neighbor)

lemma length_insert_neighbor: "length (insert_neighbor a xs) = Suc (length xs)"
  by (induction xs) auto

lemma length_rank_neighbors: "length (rank_neighbors xs) = length xs"
  by (induction xs) (auto simp: length_insert_neighbor)

lemma distinct_insert_neighbor:
  "distinct (map fst (insert_neighbor a xs)) \<longleftrightarrow> fst a \<notin> fst ` set xs \<and> distinct (map fst xs)"
  by (induction xs) (auto simp: set_insert_neighbor)

lemma distinct_rank_neighbors:
  "distinct (map fst xs) \<Longrightarrow> distinct (map fst (rank_neighbors xs))"
  by (induction xs) (auto simp: distinct_insert_neighbor set_rank_neighbors)

lemma closer_trans: "closer a b \<Longrightarrow> closer b c \<Longrightarrow> closer a c"
  by (auto simp: closer_def)

lemma closer_total: "\<not> closer a b \<Longrightarrow> fst a \<noteq> fst b \<Longrightarrow> closer b a"
  by (auto simp: closer_def)

lemma sorted_insert_neighbor:
  assumes "sorted_wrt closer xs" and "fst a \<notin> fst ` set xs"
  shows "sorted_wrt closer (insert_neighbor a xs)"
  using assms
proof (induction xs)
  case Nil
  then show ?case by simp
next
  case (Cons b bs)
  show ?case
  proof (cases "closer a b")
    case True
    with Cons.prems show ?thesis
      by (auto intro: closer_trans)
  next
    case False
    with Cons.prems have "closer b a"
      by (auto intro: closer_total)
    with False Cons show ?thesis
      by (auto simp: set_insert_neighbor)
  qed
qed

lemma sorted_rank_neighbors:
  "distinct (map fst xs) \<Longrightarrow> sorted_wrt closer (rank_neighbors xs)"
  by (induction xs) (auto simp: sorted_insert_neighbor set_rank_neighbors)

lemma set_ranked:
  "set (ranked ix q) = {(p, distance_to ix q p) | p. p < ntotal ix}"
  by (auto simp: ranked_def set_rank_neighbors in_set_enumerate_eq distance_to_def ntotal_def)

lemma length_ranked: "length (ranked ix q) = ntotal ix"
  by (simp add: ranked_def length_rank_neighbors ntotal_def)

lemma distinct_ranked: "distinct (map fst (ranked ix q))"
  by (simp add: ranked_def distinct_rank_neighbors)

lemma sorted_ranked: "sorted_wrt closer (ranked ix q)"
  by (simp add: ranked_def sorted_rank_neighbors)

lemma take_drop_closer:
  assumes "sorted_wrt closer xs" and "a \<in> set (take n xs)" and "b \<in> set (drop n xs)"
  shows "closer a b"
proof -
  have "sorted_wrt closer (take n xs @ drop n xs)" using assms(1) by simp
  then show ?thesis using assms(2,3) unfolding sorted_wrt_append by blast
qed

subsection \<open>The answer of the flat index\<close>

lemma index_search_ranked:
  "length q = ix_dim ix \<Longrightarrow>
   index_search ix q k =
     Inr (map (\<lambda>(p, dis). (int p, dis)) (take (nat k) (ranked ix q))
          @ replicate (nat k - ntotal ix) (- 1, FLT_MAX))"
  by (simp add: index_search_def ranked_def)

lemma index_search_entry:
  assumes "index_search ix q k = Inr nbrs" and "(idx, dis) \<in> set nbrs"
  shows "(0 \<le> idx \<and> nat idx < ntotal ix \<and> dis = distance_to ix q (nat idx))
       \<or> (idx = - 1 \<and> dis = FLT_MAX \<and> ntotal ix < nat k)"
proof -
  from assms(1) have len: "length q = ix_dim ix"
    by (simp add: index_search_def split: if_splits)
  from assms have "(idx, dis) \<in> (\<lambda>(p, dis). (int p, dis)) ` set (take (nat k) (ranked ix q))
      \<or> ((idx, dis) = (- 1, FLT_MAX) \<and> 0 < nat k - ntotal ix)"
    unfolding index_search_ranked [OF len] by auto
  then show ?thesis
  proof
    assume "(idx, dis) \<in> (\<lambda>(p, dis). (int p, dis)) ` set (take (nat k) (ranked ix q))"
    then obtain p where "(p, dis) \<in> set (ranked ix q)" and "idx = int p"
      by (auto dest: in_set_takeD)
    then show ?thesis by (auto simp: set_ranked)
  next
    assume "(idx, dis) = (- 1, FLT_MAX) \<and> 0 < nat k - ntotal ix"
    then show ?thesis by auto
  qed
qed

lemma index_search_no_filler:
  assumes "length q = ix_dim ix" and "nat k \<le> ntotal ix"
  shows "index_search ix q k = Inr (map (\<lambda>(p, dis). (int p, dis)) (take (nat k) (ranked ix q)))"
  using assms by (simp add: index_search_ranked)

subsection \<open>The result loop of \<^verbatim>\<open>search\<close>\<close>

lemma collect_results_filter:
  assumes "\<forall>e \<in> set nbrs. - int (length ids) \<le> fst e"
  shows "collect_results ids nbrs =
     Inr (map (\<lambda>(idx, dis).
                \<lparr>trial_id = ids ! nat (if idx < 0 then idx + int (length ids) else idx),
                 similarity_score = 1 - dis / 10\<rparr>)
            (filter (\<lambda>(idx, dis). idx < int (length ids)) nbrs))"
  using assms by (induction nbrs) (auto simp: ledger_get_def Let_def)

lemma index_search_above_minus_len:
  assumes "index_search ix q k = Inr nbrs" and "ids \<noteq> []"
  shows "\<forall>e \<in> set nbrs. - int (length ids) \<le> fst e"
proof
  fix e assume "e \<in> set nbrs"
  then have "(fst e, snd e) \<in> set nbrs" by simp
  from index_search_entry [OF assms(1) this] have "- 1 \<le> fst e" by auto
  moreover from assms(2) have "1 \<le> int (length ids)" by (cases ids) auto
  ultimately show "- int (length ids) \<le> fst e" by linarith
qed

lemma search_results:
  assumes "index st = Some ix" and "trial_ids st \<noteq> []"
    and "index_search ix (encode_text (model st) q) (min k (int (length (trial_ids st)))) = Inr nbrs"
  shows "search st q k =
     Inr (map (\<lambda>(idx, dis).
                \<lparr>trial_id = trial_ids st ! nat (if idx < 0 then idx + int (length (trial_ids st)) else idx),
                 similarity_score = 1 - dis / 10\<rparr>)
            (filter (\<lambda>(idx, dis). idx < int (length (trial_ids st))) nbrs))"
  using assms collect_results_filter [OF index_search_above_minus_len [OF assms(3,2)]]
  by (simp add: search_def)

lemma search_never_IndexError: "search st q k \<noteq> Inl IndexError"
proof (cases "index st")
  case None
  then show ?thesis by (simp add: search_def)
next
  case (Some ix)
  show ?thesis
  proof (cases "trial_ids st = []")
    case True
    with Some show ?thesis by (simp add: search_def)
  next
    case False
    show ?thesis
    proof (cases "index_search ix (encode_text (model st) q) (min k (int (length (trial_ids st))))")
      case (Inl e)
      then have "e = DimensionMismatch" by (simp add: index_search_def split: if_splits)
      with Inl Some False show ?thesis by (simp add: search_def)
    next
      case (Inr nbrs)
      from search_results [OF Some False Inr] show ?thesis by simp
    qed
  qed
qed

subsection \<open>Loading\<close>

text \<open>
  C1, as the specification states it: for every persisted artifact whose vector count and
  ledger length differ, \<^verbatim>\<open>load\<close> fails and never returns a mismatched pair. The code
  does not do this. On the artifact of the corruption scenario \<^verbatim>\<open>load\<close> returns
  normally, with an index of two vectors and a ledger of one id.
\<close>

theorem load_mismatch_counterexample:
  "fst (load (TrialVectorStore length_embedder) ''vector_store'' corrupt_disk) = Inr ()
   \<and> index_size (snd (load (TrialVectorStore length_embedder) ''vector_store'' corrupt_disk)) = 2
   \<and> length (trial_ids (snd (load (TrialVectorStore length_embedder) ''vector_store'' corrupt_disk))) = 1"
  by (simp add: load_def the_directory_def corrupt_disk_def index_size_def ntotal_def)

text \<open>
  C1, amended: \<^verbatim>\<open>load\<close> compares nothing. It returns normally exactly when both parts
  exist at the location, and the store then holds the persisted index and the persisted
  ledger as they are, whatever their lengths; nothing is truncated.
\<close>

theorem load_returns_persisted_parts:
  "(fst (load st path fs) = Inr () \<longleftrightarrow>
      (\<exists>ix ids. index_faiss (the_directory fs path) = Some ix
                \<and> trial_ids_json (the_directory fs path) = Some ids))
   \<and> (index_faiss (the_directory fs path) = Some ix \<longrightarrow>
        trial_ids_json (the_directory fs path) = Some ids \<longrightarrow>
        load st path fs = (Inr (), st\<lparr>index := Some ix, trial_ids := ids\<rparr>))"
  by (auto simp: load_def Let_def split: option.splits)

theorem load_returns_persisted_parts_witness:
  "index_faiss (the_directory corrupt_disk ''vector_store'') = Some \<lparr>ix_dim = 1, ix_vectors = [[5], [7]]\<rparr>
   \<and> trial_ids_json (the_directory corrupt_disk ''vector_store'') = Some [''A'']
   \<and> load (TrialVectorStore length_embedder) ''vector_store'' corrupt_disk =
       (Inr (), (TrialVectorStore length_embedder)
          \<lparr>index := Some \<lparr>ix_dim = 1, ix_vectors = [[5], [7]]\<rparr>, trial_ids := [''A'']\<rparr>)"
  using load_returns_persisted_parts [of "TrialVectorStore length_embedder" "''vector_store''"
      corrupt_disk "\<lparr>ix_dim = 1, ix_vectors = [[5], [7]]\<rparr>" "[''A'']"]
  by (simp add: the_directory_def corrupt_disk_def)

subsection \<open>Searching\<close>




text \<open>
  C10: the claim is that every id \<^verbatim>\<open>search\<close> returns is the ledger entry at the
  position of a neighbour. The test of the loop is one-sided, \<^verbatim>\<open>idx < len(self.trial_ids)\<close>.
  For the store loaded from one vector beside two ids and \<open>k = 2\<close>, the index's answer
  is the one neighbour followed by a place filled with \<open>-1\<close>; the test lets it through,
  \<^verbatim>\<open>trial_ids[-1]\<close> reads the last id of the ledger, and that id is returned with the
  score of the largest float32, though no vector of the index stands for it.
\<close>

theorem search_filler_reads_last_entry:
  "load (TrialVectorStore length_embedder) ''vector_store'' long_ledger_disk
     = (Inr (), long_ledger_store)
   \<and> index_search \<lparr>ix_dim = 1, ix_vectors = [[5]]\<rparr>
        (encode_text (model long_ledger_store) ''xxxxx'')
        (min 2 (int (length (trial_ids long_ledger_store)))) = Inr [(0, 0), (- 1, FLT_MAX)]
   \<and> search long_ledger_store ''xxxxx'' 2 =
       Inr [\<lparr>trial_id = ''A'', similarity_score = 1\<rparr>,
            \<lparr>trial_id = ''B'', similarity_score = 1 - FLT_MAX / 10\<rparr>]"
  by (simp add: long_ledger_store_built)
     (simp add: long_ledger_store_def search_def index_search_def length_embedder_def
      ntotal_def l2_sqr_def enumerate_eq_zip closer_def upt_rec ledger_get_def Let_def
      numeral_2_eq_2)



text \<open>
  C3, as the specification states it: for every non-empty index of size \<open>n\<close>, every query
  of the index's dimension and every \<open>k \<ge> 1\<close>, \<^verbatim>\<open>search\<close> returns exactly \<open>min(k, n)\<close>
  results. The code does not do this when the ledger is shorter than the index: it asks
  for \<open>min(k, len(trial_ids))\<close> neighbours and drops every position at or beyond the
  ledger's length. The store loaded from two vectors beside one id answers \<open>k = 2\<close> with
  no result, its nearest vector being at position 1.
\<close>

theorem search_fewer_than_k_counterexample:
  "index short_ledger_store = Some \<lparr>ix_dim = 1, ix_vectors = [[5], [7]]\<rparr>
   \<and> ntotal \<lparr>ix_dim = 1, ix_vectors = [[5], [7]]\<rparr> = 2
   \<and> length (encode_text (model short_ledger_store) ''xxxxxxx'')
        = ix_dim \<lparr>ix_dim = 1, ix_vectors = [[5], [7]]\<rparr>
   \<and> search short_ledger_store ''xxxxxxx'' 2 = Inr []"
  by (simp add: short_ledger_store_def search_def index_search_def length_embedder_def
      ntotal_def l2_sqr_def enumerate_eq_zip closer_def upt_rec)

text \<open>
  C3, amended: for a store whose index holds \<open>n > 0\<close> vectors beside a ledger of exactly
  \<open>n\<close> ids, a query whose vector has the index's dimension and \<open>k \<ge> 1\<close>, \<^verbatim>\<open>search\<close>
  returns exactly \<open>min(k, n)\<close> results. They stand for distinct positions of the index,
  ordered by ascending squared Euclidean distance to the query, the earlier position
  first among equal distances; every position left out comes after every position
  returned in that order; and the scores descend.
\<close>

theorem search_returns_nearest_in_order:
  assumes ix: "index st = Some ix"
    and nonempty: "0 < ntotal ix"
    and par: "length (trial_ids st) = ntotal ix"
    and dim: "length (encode_text (model st) q) = ix_dim ix"
    and k: "1 \<le> k"
  shows "\<exists>ps rs. search st q k = Inr rs
      \<and> rs = map (\<lambda>p. \<lparr>trial_id = trial_ids st ! p,
                        similarity_score = 1 - distance_to ix (encode_text (model st) q) p / 10\<rparr>) ps
      \<and> length rs = min (nat k) (ntotal ix)
      \<and> distinct ps
      \<and> (\<forall>p \<in> set ps. p < ntotal ix)
      \<and> sorted_wrt (\<lambda>p p'. distance_to ix (encode_text (model st) q) p
                               < distance_to ix (encode_text (model st) q) p'
                           \<or> (distance_to ix (encode_text (model st) q) p
                               = distance_to ix (encode_text (model st) q) p' \<and> p < p')) ps
      \<and> (\<forall>p \<in> set ps. \<forall>p' < ntotal ix. p' \<notin> set ps \<longrightarrow>
            distance_to ix (encode_text (model st) q) p
              < distance_to ix (encode_text (model st) q) p'
            \<or> (distance_to ix (encode_text (model st) q) p
                  = distance_to ix (encode_text (model st) q) p' \<and> p < p'))
      \<and> sorted_wrt (\<lambda>r r'. similarity_score r' \<le> similarity_score r) rs"
proof -
  define e where "e = encode_text (model st) q"
  define D where "D = distance_to ix e"
  define m where "m = nat (min k (int (length (trial_ids st))))"
  define nbrs where "nbrs = take m (ranked ix e)"
  define ps where "ps = map fst nbrs"
  define mk where "mk = (\<lambda>p. \<lparr>trial_id = trial_ids st ! p, similarity_score = 1 - D p / 10\<rparr>)"
  have m_eq: "m = min (nat k) (ntotal ix)"
    using k par unfolding m_def by linarith
  have in_nbrs: "p < ntotal ix \<and> dis = D p" if "(p, dis) \<in> set nbrs" for p dis
    using that set_ranked [of ix e] by (auto simp: nbrs_def D_def dest: in_set_takeD)
  have "map (\<lambda>x. (fst x, D (fst x))) nbrs = nbrs"
    by (rule map_idI) (use in_nbrs in auto)
  then have nbrs_ps: "nbrs = map (\<lambda>p. (p, D p)) ps"
    by (simp add: ps_def comp_def)
  have ps_bound: "p < length (trial_ids st)" if "p \<in> set ps" for p
    using that in_nbrs par by (auto simp: ps_def)
  have "nat (min k (int (length (trial_ids st)))) \<le> ntotal ix"
    using par by linarith
  from index_search_no_filler [OF _ this, of e] dim
  have "index_search ix e (min k (int (length (trial_ids st))))
      = Inr (map (\<lambda>(p, dis). (int p, dis)) nbrs)"
    by (simp add: e_def nbrs_def m_def)
  also have "map (\<lambda>(p, dis). (int p, dis)) nbrs = map (\<lambda>p. (int p, D p)) ps"
    by (subst nbrs_ps) (simp add: comp_def)
  finally have isearch: "index_search ix e (min k (int (length (trial_ids st))))
      = Inr (map (\<lambda>p. (int p, D p)) ps)" .
  have keep: "filter (\<lambda>(idx, dis). idx < int (length (trial_ids st))) (map (\<lambda>p. (int p, D p)) ps)
      = map (\<lambda>p. (int p, D p)) ps"
    using ps_bound by (auto simp: filter_id_conv)
  have ne: "trial_ids st \<noteq> []"
    using nonempty par by auto
  have res: "search st q k = Inr (map mk ps)"
    using search_results [OF ix ne isearch [unfolded e_def]]
    unfolding keep by (simp add: comp_def mk_def)
  have len: "length (map mk ps) = min (nat k) (ntotal ix)"
    by (simp add: ps_def nbrs_def length_ranked m_eq)
  have dist: "distinct ps"
    unfolding ps_def nbrs_def using distinct_ranked [of ix e]
    by (simp add: take_map [symmetric] distinct_take)
  have bound: "\<forall>p \<in> set ps. p < ntotal ix"
    using in_nbrs by (auto simp: ps_def)
  have srt_nbrs: "sorted_wrt closer nbrs"
    unfolding nbrs_def using sorted_ranked [of ix e] by (rule sorted_wrt_take)
  have srt: "sorted_wrt (\<lambda>p p'. D p < D p' \<or> (D p = D p' \<and> p < p')) ps"
    using srt_nbrs unfolding nbrs_ps by (simp add: sorted_wrt_map closer_def)
  have top: "D p < D p' \<or> (D p = D p' \<and> p < p')"
    if "p \<in> set ps" "p' < ntotal ix" "p' \<notin> set ps" for p p'
  proof -
    from that(1) have a: "(p, D p) \<in> set (take m (ranked ix e))"
      using nbrs_ps by (auto simp: nbrs_def [symmetric])
    have "(p', D p') \<in> set (ranked ix e)"
      using that(2) by (auto simp: set_ranked D_def)
    then have "(p', D p') \<in> set (take m (ranked ix e)) \<union> set (drop m (ranked ix e))"
      by (simp add: set_append [symmetric] del: set_append)
    moreover have "(p', D p') \<notin> set (take m (ranked ix e))"
      using that(3) by (force simp: ps_def nbrs_def)
    ultimately have b: "(p', D p') \<in> set (drop m (ranked ix e))" by blast
    from take_drop_closer [OF sorted_ranked a b] show ?thesis
      by (simp add: closer_def)
  qed
  have desc: "sorted_wrt (\<lambda>r r'. similarity_score r' \<le> similarity_score r) (map mk ps)"
    using srt by (simp add: sorted_wrt_map mk_def) (erule sorted_wrt_mono_rel [rotated], auto)
  show ?thesis
    using res len dist bound srt top desc
    unfolding D_def e_def mk_def
    by (intro exI [of _ ps] exI [of _ "map mk ps"]) (simp add: mk_def D_def e_def)
qed

theorem search_returns_nearest_in_order_witness:
  "index store_three = Some \<lparr>ix_dim = 1, ix_vectors = [[5], [7], [5]]\<rparr>
   \<and> 0 < ntotal \<lparr>ix_dim = 1, ix_vectors = [[5], [7], [5]]\<rparr>
   \<and> length (trial_ids store_three) = ntotal \<lparr>ix_dim = 1, ix_vectors = [[5], [7], [5]]\<rparr>
   \<and> length (encode_text (model store_three) ''xxxxx'') = ix_dim \<lparr>ix_dim = 1, ix_vectors = [[5], [7], [5]]\<rparr>
   \<and> (1::int) \<le> 2
   \<and> search store_three ''xxxxx'' 2 =
         Inr [\<lparr>trial_id = ''A'', similarity_score = 1\<rparr>, \<lparr>trial_id = ''C'', similarity_score = 1\<rparr>]
   \<and> (\<exists>ps rs. search store_three ''xxxxx'' 2 = Inr rs
         \<and> rs = map (\<lambda>p. \<lparr>trial_id = trial_ids store_three ! p,
               similarity_score = 1 - distance_to \<lparr>ix_dim = 1, ix_vectors = [[5], [7], [5]]\<rparr>
                   (encode_text (model store_three) ''xxxxx'') p / 10\<rparr>) ps
         \<and> distinct ps)"
proof -
  have h1: "index store_three = Some \<lparr>ix_dim = 1, ix_vectors = [[5], [7], [5]]\<rparr>"
    by (simp add: store_three_def)
  have h2: "0 < ntotal \<lparr>ix_dim = 1, ix_vectors = [[5], [7], [5]]\<rparr>"
    by (simp add: ntotal_def)
  have h3: "length (trial_ids store_three) = ntotal \<lparr>ix_dim = 1, ix_vectors = [[5], [7], [5]]\<rparr>"
    by (simp add: store_three_def ntotal_def)
  have h4: "length (encode_text (model store_three) ''xxxxx'')
      = ix_dim \<lparr>ix_dim = 1, ix_vectors = [[5], [7], [5]]\<rparr>"
    by (simp add: store_three_def length_embedder_def)
  have h5: "(1::int) \<le> 2" by simp
  have s: "search store_three ''xxxxx'' 2 =
         Inr [\<lparr>trial_id = ''A'', similarity_score = 1\<rparr>, \<lparr>trial_id = ''C'', similarity_score = 1\<rparr>]"
    by (simp add: store_three_def search_def index_search_def length_embedder_def
      ntotal_def l2_sqr_def enumerate_eq_zip closer_def upt_rec ledger_get_def Let_def)
  from search_returns_nearest_in_order [OF h1 h2 h3 h4 h5]
  obtain ps rs where r: "search store_three ''xxxxx'' 2 = Inr rs"
    and m: "rs = map (\<lambda>p. \<lparr>trial_id = trial_ids store_three ! p,
               similarity_score = 1 - distance_to \<lparr>ix_dim = 1, ix_vectors = [[5], [7], [5]]\<rparr>
                   (encode_text (model store_three) ''xxxxx'') p / 10\<rparr>) ps"
    and dp: "distinct ps"
    by blast
  have "\<exists>ps rs. search store_three ''xxxxx'' 2 = Inr rs
         \<and> rs = map (\<lambda>p. \<lparr>trial_id = trial_ids store_three ! p,
               similarity_score = 1 - distance_to \<lparr>ix_dim = 1, ix_vectors = [[5], [7], [5]]\<rparr>
                   (encode_text (model store_three) ''xxxxx'') p / 10\<rparr>) ps
         \<and> distinct ps"
    apply (rule exI [of _ ps])
    apply (rule exI [of _ rs])
    apply (intro conjI)
      apply (rule r)
     apply (rule m)
    apply (rule dp)
    done
  with h1 h2 h3 h4 h5 s show ?thesis by (intro conjI)
qed

subsection \<open>Inserting\<close>

text \<open>
  C8: when a batch holds a trial whose vector's length differs from the dimension the
  store is bound to, \<^verbatim>\<open>add_trials\<close> fails with \<open>DimensionMismatch\<close>, and the number of
  vectors in the index and the ledger are as before the call.
\<close>

theorem add_trials_dimension_mismatch:
  assumes "t \<in> set trials"
    and "length (encode_text (model st) (subject_text t)) \<noteq> bound_dimension st"
  shows "fst (add_trials st trials) = Inl DimensionMismatch
     \<and> index_size (snd (add_trials st trials)) = index_size st
     \<and> trial_ids (snd (add_trials st trials)) = trial_ids st"
proof -
  have bad: "\<not> list_all (\<lambda>v. length v = bound_dimension st)
               (encode (model st) (map subject_text trials))"
    using assms by (auto simp: list_all_iff encode_def)
  show ?thesis
  proof (cases "index st")
    case None
    with bad show ?thesis
      by (simp add: add_trials_def Let_def create_index_def index_add_def IndexFlatL2_def
          bound_dimension_def index_size_def ntotal_def)
  next
    case (Some ix)
    with bad show ?thesis
      by (simp add: add_trials_def Let_def index_add_def bound_dimension_def index_size_def)
  qed
qed

theorem add_trials_dimension_mismatch_witness:
  "trial_A \<in> set [trial_B, trial_A]
   \<and> length (encode_text (model foreign_store) (subject_text trial_A)) \<noteq> bound_dimension foreign_store
   \<and> add_trials foreign_store [trial_B, trial_A] = (Inl DimensionMismatch, foreign_store)
   \<and> index_size foreign_store = 1 \<and> trial_ids foreign_store = [''Z'']"
  using add_trials_dimension_mismatch [of trial_A "[trial_B, trial_A]" foreign_store]
  by (simp add: foreign_store_def length_embedder_def bound_dimension_def index_size_def
      ntotal_def add_trials_def Let_def index_add_def encode_def)

text \<open>The sizes after \<^verbatim>\<open>add_trials\<close>, when it returns and when it raises.\<close>

lemma add_trials_sizes:
  "fst (add_trials st ts) = Inr () \<Longrightarrow>
     index_size (snd (add_trials st ts)) = index_size st + length ts
   \<and> length (trial_ids (snd (add_trials st ts))) = length (trial_ids st) + length ts"
  by (auto simp: add_trials_def Let_def create_index_def index_add_def IndexFlatL2_def
      index_size_def ntotal_def encode_def split: option.splits if_splits)

lemma add_trials_failed_sizes:
  "fst (add_trials st ts) = Inl e \<Longrightarrow>
     index_size (snd (add_trials st ts)) = index_size st
   \<and> trial_ids (snd (add_trials st ts)) = trial_ids st"
  by (auto simp: add_trials_def Let_def create_index_def index_add_def IndexFlatL2_def
      index_size_def ntotal_def encode_def split: option.splits if_splits)

lemma parity_initial:
  "parity (TrialVectorStore m) \<and> parity (create_index (TrialVectorStore m))"
  by (simp add: parity_def index_size_def TrialVectorStore_def create_index_def
      IndexFlatL2_def ntotal_def)

lemma add_trials_parity: "parity st \<Longrightarrow> parity (snd (add_trials st ts))"
proof (cases "fst (add_trials st ts)")
  case (Inl e)
  assume "parity st"
  with add_trials_failed_sizes [OF Inl] show ?thesis by (simp add: parity_def)
next
  case (Inr u)
  assume "parity st"
  with add_trials_sizes [of st ts] Inr show ?thesis by (simp add: parity_def)
qed

lemma create_trial_store:
  "vector_store a = Some st \<Longrightarrow>
   vector_store (snd (create_trial True fault a t)) = Some (snd (add_trials st [t]))"
  by (auto simp: create_trial_def Let_def split: prod.splits sum.splits)

lemma load_parity:
  "fst (load st path fs) = Inr () \<Longrightarrow>
   parity (snd (load st path fs)) \<longleftrightarrow>
     map_option ntotal (index_faiss (the_directory fs path))
       = map_option length (trial_ids_json (the_directory fs path))"
  by (auto simp: load_def Let_def parity_def index_size_def split: option.splits)

text \<open>
  C2, as the specification states it: after every completed operation, a load included,
  the index holds as many vectors as the ledger has ids. The code does not keep this
  for \<^verbatim>\<open>load\<close>. Trial A is created and saved; trial B is created while the write of
  the ledger file fails, which leaves two vectors beside a ledger of one id on disk; a
  new store then loads that location and \<^verbatim>\<open>load\<close> returns normally with two vectors
  and one id.
\<close>

theorem load_breaks_parity_counterexample:
  "fst (create_trial True NoFault app_empty trial_A) = Inr trial_A
   \<and> fst (create_trial True WriteIdsFails app_one trial_B) = Inl OSError
   \<and> fst (load (TrialVectorStore length_embedder) ''vector_store'' (disk app_two)) = Inr ()
   \<and> index_size (snd (load (TrialVectorStore length_embedder) ''vector_store'' (disk app_two))) = 2
   \<and> length (trial_ids (snd (load (TrialVectorStore length_embedder) ''vector_store'' (disk app_two)))) = 1
   \<and> \<not> parity (snd (load (TrialVectorStore length_embedder) ''vector_store'' (disk app_two)))"
  by (simp add: app_two_def app_one_def app_empty_def create_trial_def Let_def add_trials_def
      create_index_def TrialVectorStore_def IndexFlatL2_def index_add_def encode_def
      length_embedder_def subject_text_def trial_A_def trial_B_def
      save_def makedirs_def write_index_def write_trial_ids_def the_directory_def no_files_def
      load_def index_size_def ntotal_def parity_def)

text \<open>
  C2, amended: a new store has parity, with or without an index; a batch insert keeps
  parity, whether it returns or raises, and a
  completed insert of \<open>n\<close> trials adds \<open>n\<close> vectors and \<open>n\<close> ids; the single-record append
  of \<^verbatim>\<open>create_trial\<close> leaves the store as the insert left it whatever happens to the
  save that follows, so parity is kept also when persistence fails. A completed load
  gives parity exactly when the persisted vector count equals the persisted ledger
  length.
\<close>

theorem insertion_keeps_parity:
  "parity (TrialVectorStore m) \<and> parity (create_index (TrialVectorStore m))
   \<and> (parity st \<longrightarrow> parity (snd (add_trials st ts)))
   \<and> (fst (add_trials st ts) = Inr () \<longrightarrow>
        index_size (snd (add_trials st ts)) = index_size st + length ts
        \<and> length (trial_ids (snd (add_trials st ts))) = length (trial_ids st) + length ts)
   \<and> (parity st \<longrightarrow> vector_store a = Some st \<longrightarrow>
        vector_store (snd (create_trial True fault a t)) = Some (snd (add_trials st [t]))
        \<and> parity (snd (add_trials st [t])))
   \<and> (fst (load st path fs) = Inr () \<longrightarrow>
        (parity (snd (load st path fs)) \<longleftrightarrow>
           map_option ntotal (index_faiss (the_directory fs path))
             = map_option length (trial_ids_json (the_directory fs path))))"
  using parity_initial [of m] add_trials_parity [of st ts] add_trials_sizes [of st ts]
    add_trials_parity [of st "[t]"] create_trial_store [of a st fault t] load_parity [of st path fs]
  by blast

theorem insertion_keeps_parity_witness:
  "parity fresh_store
   \<and> fst (add_trials fresh_store [trial_A, trial_B]) = Inr ()
   \<and> index_size (snd (add_trials fresh_store [trial_A, trial_B])) = 2
   \<and> length (trial_ids (snd (add_trials fresh_store [trial_A, trial_B]))) = 2
   \<and> parity (snd (add_trials fresh_store [trial_A, trial_B]))
   \<and> vector_store app_empty = Some fresh_store
   \<and> fst (create_trial True WriteIdsFails app_empty trial_A) = Inl OSError
   \<and> vector_store (snd (create_trial True WriteIdsFails app_empty trial_A))
        = Some (snd (add_trials fresh_store [trial_A]))
   \<and> parity (snd (add_trials fresh_store [trial_A]))
   \<and> fst (load fresh_store ''vector_store'' disk_one) = Inr ()
   \<and> parity (snd (load fresh_store ''vector_store'' disk_one))"
proof -
  have p0: "parity fresh_store"
    by (simp add: fresh_store_def parity_def index_size_def create_index_def TrialVectorStore_def
        IndexFlatL2_def ntotal_def)
  have z: "index_size fresh_store = 0" "trial_ids fresh_store = []"
    by (simp_all add: fresh_store_def index_size_def create_index_def TrialVectorStore_def
        IndexFlatL2_def ntotal_def)
  have a: "fst (add_trials fresh_store [trial_A, trial_B]) = Inr ()"
    by (simp add: fresh_store_def add_trials_def Let_def create_index_def TrialVectorStore_def
        IndexFlatL2_def index_add_def encode_def length_embedder_def)
  have v: "vector_store app_empty = Some fresh_store"
    by (simp add: app_empty_def fresh_store_def)
  have c: "fst (create_trial True WriteIdsFails app_empty trial_A) = Inl OSError"
    by (simp add: app_empty_def create_trial_def Let_def add_trials_def
      create_index_def TrialVectorStore_def IndexFlatL2_def index_add_def encode_def
      length_embedder_def save_def split: prod.splits)
  have l: "fst (load fresh_store ''vector_store'' disk_one) = Inr ()"
    by (simp add: load_def the_directory_def disk_one_def)
  have m: "map_option ntotal (index_faiss (the_directory disk_one ''vector_store''))
             = map_option length (trial_ids_json (the_directory disk_one ''vector_store''))"
    by (simp add: the_directory_def disk_one_def ntotal_def)
  from insertion_keeps_parity [of length_embedder fresh_store "[trial_A, trial_B]" app_empty
      WriteIdsFails trial_A "''vector_store''" disk_one] p0 a v l m
  show ?thesis using c z by simp
qed

subsection \<open>Saving\<close>

lemma search_cong:
  "model st' = model st \<Longrightarrow> index st' = index st \<Longrightarrow> trial_ids st' = trial_ids st \<Longrightarrow>
   search st' q k = search st q k"
  by (simp add: search_def cong: option.case_cong sum.case_cong if_cong)

lemma save_NoFault:
  "index st = Some ix \<Longrightarrow>
   save NoFault st path fs =
     (Inr (), fs(path := Some \<lparr>index_faiss = Some ix, trial_ids_json = Some (trial_ids st)\<rparr>))"
  by (auto simp: save_def Let_def makedirs_def write_index_def write_trial_ids_def the_directory_def
      split: option.splits)

lemma save_WriteIdsFails:
  "index st = Some ix \<Longrightarrow>
   save WriteIdsFails st path fs =
     (Inl OSError, fs(path := Some ((the_directory fs path)\<lparr>index_faiss := Some ix\<rparr>)))"
  by (auto simp: save_def Let_def makedirs_def write_index_def the_directory_def
      split: option.splits)

text \<open>
  C4: for a store that has an index, \<^verbatim>\<open>save\<close> without an I/O failure returns normally,
  \<^verbatim>\<open>load\<close> at the same location into a store with the same embedding model returns
  normally, the loaded index and ledger are the saved ones, and for every query text
  and every \<open>k\<close> the loaded store's \<^verbatim>\<open>search\<close> gives the same result (ids, order and
  scores) as the store that was saved.
\<close>

theorem save_load_roundtrip:
  assumes "index st = Some ix" and "model st0 = model st"
  shows "\<exists>fs' st'. save NoFault st path fs = (Inr (), fs')
           \<and> load st0 path fs' = (Inr (), st')
           \<and> index st' = index st \<and> trial_ids st' = trial_ids st
           \<and> search st' q k = search st q k"
proof -
  let ?fs' = "fs(path := Some \<lparr>index_faiss = Some ix, trial_ids_json = Some (trial_ids st)\<rparr>)"
  let ?st' = "st0\<lparr>index := Some ix, trial_ids := trial_ids st\<rparr>"
  have s: "save NoFault st path fs = (Inr (), ?fs')"
    using assms(1) by (rule save_NoFault)
  have l: "load st0 path ?fs' = (Inr (), ?st')"
    by (simp add: load_def the_directory_def)
  have "search ?st' q k = search st q k"
    using assms by (intro search_cong) simp_all
  with s l assms(1) show ?thesis by auto
qed

theorem save_load_roundtrip_witness:
  "index store_two = Some \<lparr>ix_dim = 1, ix_vectors = [[5], [7]]\<rparr>
   \<and> model (TrialVectorStore length_embedder) = model store_two
   \<and> (\<exists>fs' st'. save NoFault store_two ''vector_store'' no_files = (Inr (), fs')
        \<and> load (TrialVectorStore length_embedder) ''vector_store'' fs' = (Inr (), st')
        \<and> index st' = index store_two \<and> trial_ids st' = trial_ids store_two
        \<and> search st' ''xxxxxx'' 1 = search store_two ''xxxxxx'' 1)
   \<and> search store_two ''xxxxxx'' 1 = Inr [\<lparr>trial_id = ''A'', similarity_score = 9 / 10\<rparr>]"
  using save_load_roundtrip [of store_two "\<lparr>ix_dim = 1, ix_vectors = [[5], [7]]\<rparr>"
      "TrialVectorStore length_embedder" "''vector_store''" no_files "''xxxxxx''" 1]
  by (simp add: store_two_def TrialVectorStore_def search_def index_search_def length_embedder_def
      ntotal_def l2_sqr_def enumerate_eq_zip closer_def upt_rec ledger_get_def Let_def)

text \<open>
  C7, as the specification states it: the artifact at the save location always reflects
  the complete state before the operation or the complete state after it. The code
  does not do this. With one vector and one id on disk and two vectors and two ids in
  the store, a save whose write of the ledger file fails leaves two vectors beside one
  id: neither the state before nor the state after.
\<close>

theorem save_partial_counterexample:
  "fst (save WriteIdsFails store_two ''vector_store'' disk_one) = Inl OSError
   \<and> the_directory (snd (save WriteIdsFails store_two ''vector_store'' disk_one)) ''vector_store''
       = \<lparr>index_faiss = Some \<lparr>ix_dim = 1, ix_vectors = [[5], [7]]\<rparr>, trial_ids_json = Some [''A'']\<rparr>
   \<and> the_directory disk_one ''vector_store''
       = \<lparr>index_faiss = Some \<lparr>ix_dim = 1, ix_vectors = [[5]]\<rparr>, trial_ids_json = Some [''A'']\<rparr>
   \<and> the_directory (snd (save NoFault store_two ''vector_store'' disk_one)) ''vector_store''
       = \<lparr>index_faiss = Some \<lparr>ix_dim = 1, ix_vectors = [[5], [7]]\<rparr>,
          trial_ids_json = Some [''A'', ''B'']\<rparr>"
  by (simp add: save_def Let_def makedirs_def write_index_def write_trial_ids_def the_directory_def
      store_two_def disk_one_def)

text \<open>
  C7, amended: a save that completes leaves exactly the store's vectors and ledger at
  the location, and no other location is touched. \<^verbatim>\<open>save\<close> has no temporary location
  and no atomic replacement: it writes the index file and then the ledger file in
  place, so a save that fails between the two leaves the new vectors beside whatever
  ledger file was there before.
\<close>

theorem save_writes_in_place:
  assumes "index st = Some ix"
  shows "save NoFault st path fs =
           (Inr (), fs(path := Some \<lparr>index_faiss = Some ix, trial_ids_json = Some (trial_ids st)\<rparr>))
     \<and> save WriteIdsFails st path fs =
           (Inl OSError, fs(path := Some ((the_directory fs path)\<lparr>index_faiss := Some ix\<rparr>)))"
  using assms by (simp add: save_NoFault save_WriteIdsFails)

theorem save_writes_in_place_witness:
  "index store_two = Some \<lparr>ix_dim = 1, ix_vectors = [[5], [7]]\<rparr>
   \<and> the_directory (snd (save NoFault store_two ''vector_store'' disk_one)) ''vector_store''
       = \<lparr>index_faiss = Some \<lparr>ix_dim = 1, ix_vectors = [[5], [7]]\<rparr>,
          trial_ids_json = Some [''A'', ''B'']\<rparr>
   \<and> fst (save WriteIdsFails store_two ''vector_store'' disk_one) = Inl OSError
   \<and> the_directory (snd (save WriteIdsFails store_two ''vector_store'' disk_one)) ''vector_store''
       = (the_directory disk_one ''vector_store'')
           \<lparr>index_faiss := Some \<lparr>ix_dim = 1, ix_vectors = [[5], [7]]\<rparr>\<rparr>"
  using save_writes_in_place [of store_two "\<lparr>ix_dim = 1, ix_vectors = [[5], [7]]\<rparr>"
      "''vector_store''" disk_one]
  by (simp add: store_two_def the_directory_def)

subsection \<open>Resolving the results of a query\<close>

lemma find_one_id: "find_one db tid = Some t \<Longrightarrow> tr_id t = tid"
  by (auto simp: find_one_def find_Some_iff)

lemma first_score_found:
  "tid \<in> trial_id ` set results \<Longrightarrow> \<exists>s. first_score results tid = Inr s"
  by (cases "List.find (\<lambda>r. trial_id r = tid) results")
     (auto simp: first_score_def find_None_iff)

lemma attach_trials_resolved:
  assumes "set tids \<subseteq> trial_id ` set results"
  shows "\<exists>out. attach_trials db results tids = Inr out
      \<and> map (\<lambda>x. tr_id (fst x)) out = filter (\<lambda>tid. find_one db tid \<noteq> None) tids
      \<and> (\<forall>x \<in> set out. find_one db (tr_id (fst x)) = Some (fst x)
                         \<and> first_score results (tr_id (fst x)) = Inr (snd x))"
  using assms
proof (induction tids)
  case Nil
  then show ?case by simp
next
  case (Cons tid tids)
  then obtain out where out: "attach_trials db results tids = Inr out"
    "map (\<lambda>x. tr_id (fst x)) out = filter (\<lambda>tid. find_one db tid \<noteq> None) tids"
    "\<forall>x \<in> set out. find_one db (tr_id (fst x)) = Some (fst x)
                         \<and> first_score results (tr_id (fst x)) = Inr (snd x)"
    by auto
  show ?case
  proof (cases "find_one db tid")
    case None
    with out show ?thesis by simp
  next
    case (Some t)
    from Cons.prems obtain s where s: "first_score results tid = Inr s"
      using first_score_found [of tid results] by auto
    from Some have "tr_id t = tid" by (rule find_one_id)
    with Some s out show ?thesis by simp
  qed
qed

text \<open>
  C9: once the store is there and its \<^verbatim>\<open>search\<close> has returned, \<^verbatim>\<open>semantic_search\<close>
  returns normally. Its output holds, in the order of the search results, exactly the
  ids that \<^verbatim>\<open>find_one\<close> resolves, each with its document and the score of the first
  result with that id; an id that does not resolve is left out and raises nothing.
\<close>

theorem semantic_search_skips_unresolved:
  assumes "(if needs_initialization a then initialize_store fault m a else (Inr (), a)) = (Inr (), a1)"
    and "vector_store a1 = Some vs"
    and "search vs q k = Inr results"
  shows "\<exists>out. semantic_search fault m a q k = (Inr out, a1)
      \<and> map (\<lambda>x. tr_id (fst x)) out
          = filter (\<lambda>tid. find_one (trials_db a1) tid \<noteq> None) (map trial_id results)
      \<and> (\<forall>x \<in> set out. find_one (trials_db a1) (tr_id (fst x)) = Some (fst x)
                         \<and> first_score results (tr_id (fst x)) = Inr (snd x))"
proof -
  have "set (map trial_id results) \<subseteq> trial_id ` set results" by simp
  from attach_trials_resolved [OF this, of "trials_db a1"]
  obtain out where out: "attach_trials (trials_db a1) results (map trial_id results) = Inr out"
    "map (\<lambda>x. tr_id (fst x)) out
       = filter (\<lambda>tid. find_one (trials_db a1) tid \<noteq> None) (map trial_id results)"
    "\<forall>x \<in> set out. find_one (trials_db a1) (tr_id (fst x)) = Some (fst x)
                         \<and> first_score results (tr_id (fst x)) = Inr (snd x)"
    by blast
  have "semantic_search fault m a q k = (Inr out, a1)"
    unfolding semantic_search_def assms(1) using assms(2,3) out(1) by simp
  with out(2,3) show ?thesis by blast
qed

theorem semantic_search_skips_unresolved_witness:
  "(if needs_initialization app_deleted then initialize_store NoFault length_embedder app_deleted
     else (Inr (), app_deleted)) = (Inr (), app_deleted)
   \<and> vector_store app_deleted = Some store_three
   \<and> search store_three ''xxxxx'' 3 =
         Inr [\<lparr>trial_id = ''A'', similarity_score = 1\<rparr>,
              \<lparr>trial_id = ''C'', similarity_score = 1\<rparr>,
              \<lparr>trial_id = ''B'', similarity_score = 3 / 5\<rparr>]
   \<and> find_one (trials_db app_deleted) ''C'' = None
   \<and> semantic_search NoFault length_embedder app_deleted ''xxxxx'' 3
        = (Inr [(trial_A, 1), (trial_B, 3 / 5)], app_deleted)"
proof -
  have init: "(if needs_initialization app_deleted
      then initialize_store NoFault length_embedder app_deleted
      else (Inr (), app_deleted)) = (Inr (), app_deleted)"
    by (simp add: needs_initialization_def app_deleted_def store_three_def)
  have vs: "vector_store app_deleted = Some store_three"
    by (simp add: app_deleted_def)
  have s: "search store_three ''xxxxx'' 3 =
         Inr [\<lparr>trial_id = ''A'', similarity_score = 1\<rparr>,
              \<lparr>trial_id = ''C'', similarity_score = 1\<rparr>,
              \<lparr>trial_id = ''B'', similarity_score = 3 / 5\<rparr>]"
    by (simp add: store_three_def search_def index_search_def length_embedder_def
      ntotal_def l2_sqr_def enumerate_eq_zip closer_def upt_rec ledger_get_def Let_def)
  have db: "trials_db app_deleted = [trial_A, trial_B]"
    by (simp add: app_deleted_def)
  have f: "find_one [trial_A, trial_B] ''A'' = Some trial_A"
    "find_one [trial_A, trial_B] ''B'' = Some trial_B"
    "find_one [trial_A, trial_B] ''C'' = None"
    by (simp_all add: find_one_def trial_A_def trial_B_def)
  from semantic_search_skips_unresolved [OF init vs s]
  obtain out where out: "semantic_search NoFault length_embedder app_deleted ''xxxxx'' 3 = (Inr out, app_deleted)"
    "map (\<lambda>x. tr_id (fst x)) out = [''A'', ''B'']"
    "\<forall>x \<in> set out. find_one [trial_A, trial_B] (tr_id (fst x)) = Some (fst x)
        \<and> first_score [\<lparr>trial_id = ''A'', similarity_score = 1\<rparr>,
              \<lparr>trial_id = ''C'', similarity_score = 1\<rparr>,
              \<lparr>trial_id = ''B'', similarity_score = 3 / 5\<rparr>] (tr_id (fst x)) = Inr (snd x)"
    by (auto simp: db f)
  from out(2) obtain x y where xy: "out = [x, y]" "tr_id (fst x) = ''A''" "tr_id (fst y) = ''B''"
    by (auto simp: map_eq_Cons_conv)
  with out(3) have "x = (trial_A, 1)" "y = (trial_B, 3 / 5)"
    by (auto simp: f first_score_def prod_eq_iff)
  with xy out(1) init vs s db f show ?thesis by simp
qed

end
